theory Spec2Isabelle
  imports Complex_Main "HOL-Library.Multiset" "HOL-Library.Sublist"
begin

section \<open>Data model of \<open>src/queries.js\<close>\<close>

text \<open>
  The two mongoose schemas of the constructor become records. A JavaScript \<open>Number\<close> is
  a double; the model carries its exact value, a rational number. Comparing two
  Numbers is then exact, as it is in the store. Arithmetic is not: the store rounds
  what it computes to a double again, and the average that \<open>addReview\<close> asks the
  store for is modelled with that rounding (see \<open>group_avg_rating\<close>). A \<open>Date\<close> is
  its number of milliseconds since the epoch, an \<open>ObjectId\<close> is an opaque natural
  number. Field names carry a
  prefix, because \<open>rating\<close>, \<open>login\<close> and \<open>amount\<close> occur in more than one schema and
  \<open>id\<close>, \<open>text\<close> and \<open>image\<close> are taken in HOL.

  The schema gives no field a default and marks none as required. The only field that
  the code of this file ever leaves out of a document it writes is \<open>isApproved\<close>, so
  that field alone is modelled as optional: \<open>None\<close> is the absent field
  (\<open>undefined\<close> when read back).
\<close>

record review =
  r_id :: string
  r_login :: string
  r_date :: int
  r_text :: string
  r_rating :: rat
  r_isApproved :: "bool option"

record souvenir =
  s_id :: nat
  s_name :: string
  s_tags :: "string list"
  s_reviews :: "review list"
  s_image :: string
  s_price :: rat
  s_amount :: rat
  s_country :: string
  s_rating :: rat
  s_isRecent :: bool

record cart_item =
  i_souvenirId :: nat
  i_amount :: rat

record cart =
  c_login :: string
  c_items :: "cart_item list"

text \<open>
  The state of the store: the documents of the two collections, in their natural
  order. The \<open>$lookup\<close> stage of \<open>getCartSum\<close> reads the collection named
  \<open>souvenirs\<close>; the model takes it to be the collection behind \<open>this._Souvenir\<close>.
\<close>

record db =
  souvenirs :: "souvenir list"
  carts :: "cart list"

text \<open>The second argument of \<open>addReview\<close>, destructured as \<open>{ login, rating, text }\<close>.\<close>

record review_input =
  in_login :: string
  in_rating :: rat
  in_text :: string

text \<open>
  \<open>TypeError\<close> is what JavaScript raises when a property of \<open>undefined\<close> is read; it
  is the only failure the modelled code produces by itself. The other three
  constructors are the error kinds named by the specification; no line of the source
  constructs them.
\<close>

datatype error = TypeError | NotFound | ValidationRejected | StoreUnavailable

section \<open>Store primitives\<close>

text \<open>\<open>Model.find(filter)\<close>: the matching documents, in natural order.\<close>

definition find_where :: "('a \<Rightarrow> bool) \<Rightarrow> 'a list \<Rightarrow> 'a list" where
  "find_where q coll = filter q coll"

text \<open>
  \<open>.sort({ rating: -1 })\<close>: descending by rating. The store does not promise an order
  among equal ratings; the model keeps the natural order there, and no theorem below
  depends on that choice.
\<close>

definition sort_rating_desc :: "souvenir list \<Rightarrow> souvenir list" where
  "sort_rating_desc docs = sort_key (\<lambda>s. - s_rating s) docs"

text \<open>
  \<open>.limit(n)\<close> as the store defines it: a positive limit is the greatest number of
  documents returned, a limit of 0 is no limit, and a negative limit \<open>-k\<close> asks for at
  most \<open>k\<close> documents in a single batch, so that no more than one batch of them comes
  back. The number of documents that the store puts in one batch is not set by the
  source; it is the argument \<open>batch\<close>.
\<close>

definition limit_n :: "nat \<Rightarrow> int \<Rightarrow> 'a list \<Rightarrow> 'a list" where
  "limit_n batch n docs =
     (if n = 0 then docs
      else if 0 < n then take (nat n) docs
      else take (min (nat (- n)) batch) docs)"

text \<open>
  \<open>Model.findOneAndUpdate(filter, update)\<close>: the first matching document is replaced by
  its update; the call resolves to the document as it was before (the option
  \<open>new\<close> is not set), or to \<open>null\<close> when nothing matches, and then nothing is written.
\<close>

fun findOneAndUpdate :: "('a \<Rightarrow> bool) \<Rightarrow> ('a \<Rightarrow> 'a) \<Rightarrow> 'a list \<Rightarrow> 'a option \<times> 'a list" where
  "findOneAndUpdate q u [] = (None, [])"
| "findOneAndUpdate q u (x # xs) =
     (if q x then (Some x, u x # xs)
      else (case findOneAndUpdate q u xs of (found, ys) \<Rightarrow> (found, x # ys)))"

text \<open>The update documents \<open>{ $push: { reviews: r } }\<close> and \<open>{ $set: { rating: v } }\<close>.\<close>

definition push_reviews :: "review \<Rightarrow> souvenir \<Rightarrow> souvenir" where
  "push_reviews r s = s\<lparr>s_reviews := s_reviews s @ [r]\<rparr>"

definition set_rating :: "rat \<Rightarrow> souvenir \<Rightarrow> souvenir" where
  "set_rating v s = s\<lparr>s_rating := v\<rparr>"

text \<open>
  A plain JavaScript object, as the store client hands one back: its fields in order,
  each with a number or a boolean. A field that is not in the list is absent from the
  object.
\<close>

datatype js_value = JNumber int | JBoolean bool

type_synonym js_object = "(string \<times> js_value) list"

text \<open>
  \<open>Model.deleteMany(filter)\<close>: every matching document is removed and the others keep
  their order. The call resolves to the object that the comment above
  \<open>deleteOutOfStockSouvenirs\<close> describes, \<open>{ ok: 1, n: k }\<close> with \<open>k\<close> the number of
  removed documents.
\<close>

definition deleteMany :: "('a \<Rightarrow> bool) \<Rightarrow> 'a list \<Rightarrow> js_object \<times> 'a list" where
  "deleteMany q coll =
     ([(''ok'', JNumber 1), (''n'', JNumber (int (length (filter q coll))))],
      filter (\<lambda>x. \<not> q x) coll)"

subsection \<open>Aggregation stages\<close>

text \<open>\<open>{ $match: q }\<close>.\<close>

definition match_stage :: "('a \<Rightarrow> bool) \<Rightarrow> 'a list \<Rightarrow> 'a list" where
  "match_stage q docs = filter q docs"

text \<open>
  \<open>{ $unwind: '$reviews' }\<close>: one output document per element of the array, none for an
  empty array. An output document is the input document with the array replaced by the
  element: here the pair of both.
\<close>

definition unwind_reviews :: "souvenir list \<Rightarrow> (souvenir \<times> review) list" where
  "unwind_reviews docs = concat (map (\<lambda>s. map (\<lambda>r. (s, r)) (s_reviews s)) docs)"

text \<open>\<open>{ $replaceRoot: { newRoot: '$reviews' } }\<close>.\<close>

definition replaceRoot_reviews :: "(souvenir \<times> review) list \<Rightarrow> review list" where
  "replaceRoot_reviews docs = map snd docs"

text \<open>
  \<open>{ $group: { _id: null, rating: { $avg: '$rating' } } }\<close>: a single row for all the
  input documents, and no row at all when there is no input document. What the
  accumulator \<open>$avg\<close> makes of the numbers it is given is the store's arithmetic, not
  the source's: it is the argument \<open>avg\<close>, and the stage hands it the ratings of all
  its input documents, in order.
\<close>

record rating_row =
  row_rating :: rat

definition group_avg_rating :: "(rat list \<Rightarrow> rat) \<Rightarrow> review list \<Rightarrow> rating_row list" where
  "group_avg_rating avg docs =
     (if docs = [] then []
      else [\<lparr>row_rating = avg (map r_rating docs)\<rparr>])"

subsection \<open>The store's double arithmetic\<close>

text \<open>
  \<open>round_double\<close> rounds a rational number to the nearest double, a tie going to the
  even significand: a double is \<open>m * 2 ^ e\<close> with \<open>m\<close> below \<open>2 ^ 53\<close> and \<open>e\<close> not
  below \<open>-1074\<close>. For \<open>x = p / q\<close> the exponent \<open>e\<close> is found from the numbers of
  binary digits of \<open>p\<close> and \<open>q\<close>, so that \<open>x / 2 ^ e\<close> lies between \<open>2 ^ 52\<close> and
  \<open>2 ^ 53\<close> unless \<open>e\<close> would fall below \<open>-1074\<close>. Numbers too large for a double,
  which the store turns into \<open>Infinity\<close>, are outside the model.
\<close>

function bit_length :: "int \<Rightarrow> int" where
  "bit_length n = (if n \<le> 0 then 0 else 1 + bit_length (n div 2))"
  by pat_completeness auto
termination
  by (relation "measure nat") auto

declare bit_length.simps [simp del]

definition pow2 :: "int \<Rightarrow> rat" where
  "pow2 e = (if 0 \<le> e then 2 ^ nat e else 1 / 2 ^ nat (- e))"

definition round_half_even :: "rat \<Rightarrow> int" where
  "round_half_even y =
     (let f = \<lfloor>y\<rfloor>; r = y - of_int f
      in if r < 1 / 2 then f
         else if 1 / 2 < r then f + 1
         else if even f then f else f + 1)"

definition round_double_pos :: "rat \<Rightarrow> rat" where
  "round_double_pos x =
     (case quotient_of x of (p, q) \<Rightarrow>
        let e0 = bit_length p - bit_length q - 53;
            e1 = (if x / pow2 e0 < 2 ^ 53 then e0 else e0 + 1);
            e = max e1 (- 1074)
        in of_int (round_half_even (x / pow2 e)) * pow2 e)"

definition round_double :: "rat \<Rightarrow> rat" where
  "round_double x =
     (if x = 0 then 0
      else if 0 < x then round_double_pos x
      else - round_double_pos (- x))"

text \<open>
  \<open>$avg\<close> in double arithmetic: the store adds the numbers up, keeping a correction
  term so that the total is the sum rounded once, and divides the total by the count,
  which rounds again. It is not asked for the average of no numbers: the group stage
  yields no row then.
\<close>

definition double_avg :: "rat list \<Rightarrow> rat" where
  "double_avg xs = round_double (round_double (sum_list xs) / of_nat (length xs))"

text \<open>The same three stages on the \<open>items\<close> of the carts.\<close>

definition unwind_items :: "cart list \<Rightarrow> (cart \<times> cart_item) list" where
  "unwind_items docs = concat (map (\<lambda>c. map (\<lambda>i. (c, i)) (c_items c)) docs)"

definition replaceRoot_items :: "(cart \<times> cart_item) list \<Rightarrow> cart_item list" where
  "replaceRoot_items docs = map snd docs"

text \<open>
  \<open>{ $lookup: { from: 'souvenirs', localField: 'souvenirId', foreignField: '_id',
  as: 'souvenirs' } }\<close>: every item gets the array of the souvenirs whose \<open>_id\<close> is its
  \<open>souvenirId\<close>.
\<close>

definition lookup_souvenirs :: "souvenir list \<Rightarrow> cart_item list \<Rightarrow> (cart_item \<times> souvenir list) list" where
  "lookup_souvenirs coll docs =
     map (\<lambda>i. (i, filter (\<lambda>s. s_id s = i_souvenirId i) coll)) docs"

text \<open>\<open>{ $unwind: '$souvenirs' }\<close>: an item whose array is empty yields no document.\<close>

definition unwind_souvenirs :: "(cart_item \<times> souvenir list) list \<Rightarrow> (cart_item \<times> souvenir) list" where
  "unwind_souvenirs docs = concat (map (\<lambda>(i, ss). map (\<lambda>s. (i, s)) ss) docs)"

text \<open>
  \<open>{ $group: { _id: null, cost: { $sum: { $multiply: ['$souvenirs.price', '$amount'] } } } }\<close>.
  The model multiplies and adds exactly, where the store rounds to doubles; the
  theorems on \<open>getCartSum\<close> that are claims are about the case with no row, where
  nothing is computed.
\<close>

record cost_row =
  row_cost :: rat

definition group_sum_cost :: "(cart_item \<times> souvenir) list \<Rightarrow> cost_row list" where
  "group_sum_cost docs =
     (if docs = [] then []
      else [\<lparr>row_cost = sum_list (map (\<lambda>(i, s). s_price s * i_amount i) docs)\<rparr>])"

subsection \<open>Regular expressions\<close>

text \<open>
  \<open>{ $regex: p, $options: 'i' }\<close> hands the string \<open>p\<close> to the store's regular
  expression engine as a pattern. The model covers the patterns made of ordinary
  characters and of the dot: an ordinary character stands for itself, a dot stands for
  any character but a line feed, the pattern may match anywhere in the subject, and
  with option \<open>i\<close> letters match in either case. Every other pattern (one with a
  backslash, an anchor, a quantifier, a bracket, a brace, a parenthesis or a bar) is
  outside the model: \<open>compile_regex\<close> answers \<open>None\<close> for it.
\<close>

datatype regex_atom = Lit char | AnyChar

definition other_metachars :: "char list" where
  "other_metachars = CHR 0x5C # ''^$|?*+()[]{}''"

definition compile_atom :: "char \<Rightarrow> regex_atom option" where
  "compile_atom c =
     (if c = CHR ''.'' then Some AnyChar
      else if c \<in> set other_metachars then None
      else Some (Lit c))"

definition compile_regex :: "string \<Rightarrow> regex_atom list option" where
  "compile_regex p = those (map compile_atom p)"

definition lower :: "char \<Rightarrow> char" where
  "lower c =
     (case map_of (zip ''ABCDEFGHIJKLMNOPQRSTUVWXYZ'' ''abcdefghijklmnopqrstuvwxyz'') c of
        None \<Rightarrow> c
      | Some l \<Rightarrow> l)"

fun atom_matches :: "regex_atom \<Rightarrow> char \<Rightarrow> bool" where
  "atom_matches (Lit p) c = (lower p = lower c)"
| "atom_matches AnyChar c = (c \<noteq> CHR 0x0A)"

fun match_here :: "regex_atom list \<Rightarrow> string \<Rightarrow> bool" where
  "match_here [] cs = True"
| "match_here (a # as) [] = False"
| "match_here (a # as) (c # cs) = (atom_matches a c \<and> match_here as cs)"

fun regex_search :: "regex_atom list \<Rightarrow> string \<Rightarrow> bool" where
  "regex_search as [] = match_here as []"
| "regex_search as (c # cs) = (match_here as (c # cs) \<or> regex_search as cs)"

section \<open>The operations of class \<open>Queries\<close>\<close>

definition getAllSouvenirs :: "db \<Rightarrow> souvenir list" where
  "getAllSouvenirs st = find_where (\<lambda>s. True) (souvenirs st)"

definition getTopRatingSouvenirs :: "nat \<Rightarrow> int \<Rightarrow> db \<Rightarrow> souvenir list" where
  "getTopRatingSouvenirs batch n st =
     limit_n batch n (sort_rating_desc (find_where (\<lambda>s. True) (souvenirs st)))"

text \<open>
  \<open>searchSouvenirs\<close> passes its argument as the pattern. \<open>None\<close> means that the pattern
  is outside the modelled fragment of the pattern language, not that the call fails.
\<close>

definition searchSouvenirs :: "string \<Rightarrow> db \<Rightarrow> souvenir list option" where
  "searchSouvenirs substring st =
     (case compile_regex substring of
        None \<Rightarrow> None
      | Some re \<Rightarrow> Some (find_where (\<lambda>s. regex_search re (s_name s)) (souvenirs st)))"

text \<open>
  The filter \<open>{ 'reviews.0.date': { $gte: date } }\<close>. The path \<open>reviews.0.date\<close> reads
  the field \<open>date\<close> of the element at index 0 of the array \<open>reviews\<close>, and reads nothing
  when the array has no such element; \<open>$gte\<close> does not hold of a path that reads
  nothing.
\<close>

definition path_reviews_date :: "nat \<Rightarrow> souvenir \<Rightarrow> int option" where
  "path_reviews_date k s =
     (if k < length (s_reviews s) then Some (r_date (s_reviews s ! k)) else None)"

definition gte :: "int \<Rightarrow> int option \<Rightarrow> bool" where
  "gte bound v = (case v of None \<Rightarrow> False | Some x \<Rightarrow> bound \<le> x)"

definition getDisscusedSouvenirs :: "int \<Rightarrow> db \<Rightarrow> souvenir list" where
  "getDisscusedSouvenirs date st =
     find_where (\<lambda>s. gte date (path_reviews_date 0 s)) (souvenirs st)"

definition deleteOutOfStockSouvenirs :: "db \<Rightarrow> js_object \<times> db" where
  "deleteOutOfStockSouvenirs st =
     (case deleteMany (\<lambda>s. s_amount s = 0) (souvenirs st) of
        (res, coll) \<Rightarrow> (res, st\<lparr>souvenirs := coll\<rparr>))"

text \<open>
  \<open>addReview\<close>. The values of \<open>uuidv4()\<close> and of \<open>new Date()\<close> come from the
  environment and are arguments of the model, and so is the store's \<open>$avg\<close>. The pushed object is
  \<open>{ login, id, text, rating, date }\<close>: it has no \<open>isApproved\<close>. The result is the outcome
  of the promise (the document that the last \<open>findOneAndUpdate\<close> found, or the error
  raised by reading \<open>aggregateResult[0].rating\<close> of an empty result) together with the
  store as the call leaves it.
\<close>

definition addReview ::
  "(rat list \<Rightarrow> rat) \<Rightarrow> string \<Rightarrow> int \<Rightarrow> nat \<Rightarrow> review_input \<Rightarrow> db \<Rightarrow>
   (error + souvenir option) \<times> db" where
  "addReview avg uuid now souvenirId inp st =
     (let r = \<lparr>r_id = uuid, r_login = in_login inp, r_date = now, r_text = in_text inp,
                r_rating = in_rating inp, r_isApproved = None\<rparr>;
          st1 = st\<lparr>souvenirs :=
                  snd (findOneAndUpdate (\<lambda>s. s_id s = souvenirId) (push_reviews r) (souvenirs st))\<rparr>;
          aggregateResult =
            group_avg_rating avg (replaceRoot_reviews (unwind_reviews
              (match_stage (\<lambda>s. s_id s = souvenirId) (souvenirs st1))))
      in case aggregateResult of
           [] \<Rightarrow> (Inl TypeError, st1)
         | row # _ \<Rightarrow>
             (case findOneAndUpdate (\<lambda>s. s_id s = souvenirId) (set_rating (row_rating row))
                     (souvenirs st1) of
                (found, coll) \<Rightarrow> (Inr found, st1\<lparr>souvenirs := coll\<rparr>)))"

text \<open>\<open>getCartSum\<close>: the pipeline, then \<open>result[0].cost\<close>.\<close>

definition getCartSum :: "string \<Rightarrow> db \<Rightarrow> error + rat" where
  "getCartSum login st =
     (let result =
            group_sum_cost (unwind_souvenirs (lookup_souvenirs (souvenirs st)
              (replaceRoot_items (unwind_items
                (match_stage (\<lambda>c. c_login c = login) (carts st))))))
      in case result of
           [] \<Rightarrow> Inl TypeError
         | row # _ \<Rightarrow> Inr (row_cost row))"

text \<open>
  What one cart item is worth against a catalog: price times amount when its
  \<open>souvenirId\<close> resolves, and 0 when it does not. It is the yardstick for
  \<open>getCartSum\<close>, not a part of the source.
\<close>

definition item_cost :: "souvenir list \<Rightarrow> cart_item \<Rightarrow> rat" where
  "item_cost coll i =
     (case find (\<lambda>s. s_id s = i_souvenirId i) coll of
        None \<Rightarrow> 0
      | Some s \<Rightarrow> s_price s * i_amount i)"

section \<open>A small store\<close>

definition first_review :: review where
  "first_review =
     \<lparr>r_id = ''a1'', r_login = ''ann'', r_date = 100, r_text = ''ok'', r_rating = 4,
      r_isApproved = Some True\<rparr>"

definition mug :: souvenir where
  "mug =
     \<lparr>s_id = 1, s_name = ''Mug'', s_tags = [''kitchen''], s_reviews = [first_review],
      s_image = ''mug.png'', s_price = 5, s_amount = 3, s_country = ''FR'', s_rating = 4,
      s_isRecent = False\<rparr>"

definition magnet :: souvenir where
  "magnet =
     \<lparr>s_id = 2, s_name = ''Magnet'', s_tags = [], s_reviews = [],
      s_image = ''magnet.png'', s_price = 2, s_amount = 0, s_country = ''IT'', s_rating = 0,
      s_isRecent = True\<rparr>"

definition ann_cart :: cart where
  "ann_cart =
     \<lparr>c_login = ''ann'',
      c_items = [\<lparr>i_souvenirId = 1, i_amount = 2\<rparr>, \<lparr>i_souvenirId = 9, i_amount = 4\<rparr>]\<rparr>"

definition bob_cart :: cart where
  "bob_cart = \<lparr>c_login = ''bob'', c_items = []\<rparr>"

definition carl_cart :: cart where
  "carl_cart = \<lparr>c_login = ''carl'', c_items = [\<lparr>i_souvenirId = 9, i_amount = 1\<rparr>]\<rparr>"

definition shop :: db where
  "shop = \<lparr>souvenirs = [mug, magnet], carts = [ann_cart, bob_cart, carl_cart]\<rparr>"

definition ann_input :: review_input where
  "ann_input = \<lparr>in_login = ''ann'', in_rating = 2, in_text = ''fine''\<rparr>"




section \<open>The store primitives on documents with distinct ids\<close>

text \<open>
  The store keeps \<open>_id\<close> unique within a collection. Under that invariant an update by
  id is a map over the collection, and a match by id yields the one document.
\<close>

lemma findOneAndUpdate_absent:
  "sid \<notin> s_id ` set xs \<Longrightarrow> findOneAndUpdate (\<lambda>s. s_id s = sid) u xs = (None, xs)"
  by (induction xs) auto

lemma findOneAndUpdate_present:
  "distinct (map s_id xs) \<Longrightarrow> s \<in> set xs \<Longrightarrow>
   findOneAndUpdate (\<lambda>t. s_id t = s_id s) u xs =
     (Some s, map (\<lambda>t. if s_id t = s_id s then u t else t) xs)"
proof (induction xs)
  case Nil
  then show ?case by simp
next
  case (Cons x xs)
  show ?case
  proof (cases "s_id x = s_id s")
    case True
    with Cons.prems have "x = s" by force
    moreover from Cons.prems True have "s_id s \<notin> s_id ` set xs" by auto
    then have "map (\<lambda>t. if s_id t = s_id s then u t else t) xs = xs"
      by (induction xs) auto
    ultimately show ?thesis by simp
  next
    case False
    with Cons show ?thesis by auto
  qed
qed

lemma filter_by_id:
  "distinct (map s_id xs) \<Longrightarrow> s \<in> set xs \<Longrightarrow> s_id (u s) = s_id s \<Longrightarrow>
   filter (\<lambda>t. s_id t = s_id s) (map (\<lambda>t. if s_id t = s_id s then u t else t) xs) = [u s]"
proof (induction xs)
  case Nil
  then show ?case by simp
next
  case (Cons x xs)
  show ?case
  proof (cases "s_id x = s_id s")
    case True
    with Cons.prems have "x = s" by force
    moreover from Cons.prems True have "s_id s \<notin> s_id ` set xs" by auto
    then have "filter (\<lambda>t. s_id t = s_id s) (map (\<lambda>t. if s_id t = s_id s then u t else t) xs) = []"
      by (induction xs) auto
    ultimately show ?thesis using Cons.prems(3) by simp
  next
    case False
    with Cons show ?thesis by auto
  qed
qed

lemma aggregate_single:
  "group_avg_rating avg (replaceRoot_reviews (unwind_reviews [s])) =
     (if s_reviews s = [] then []
      else [\<lparr>row_rating = avg (map r_rating (s_reviews s))\<rparr>])"
  by (simp add: group_avg_rating_def replaceRoot_reviews_def unwind_reviews_def comp_def)

lemma addReview_existing:
  assumes "distinct (map s_id (souvenirs st))" and "s \<in> set (souvenirs st)"
  shows "addReview avg uuid now (s_id s) inp st =
    (Inr (Some (s\<lparr>s_reviews := s_reviews s @
         [\<lparr>r_id = uuid, r_login = in_login inp, r_date = now, r_text = in_text inp,
           r_rating = in_rating inp, r_isApproved = None\<rparr>]\<rparr>)),
     st\<lparr>souvenirs := map (\<lambda>t. if s_id t = s_id s
        then t\<lparr>s_reviews := s_reviews t @
               [\<lparr>r_id = uuid, r_login = in_login inp, r_date = now, r_text = in_text inp,
                 r_rating = in_rating inp, r_isApproved = None\<rparr>],
             s_rating := avg (map r_rating (s_reviews s) @ [in_rating inp])\<rparr>
        else t) (souvenirs st)\<rparr>)"
proof -
  define r where "r = \<lparr>r_id = uuid, r_login = in_login inp, r_date = now, r_text = in_text inp,
           r_rating = in_rating inp, r_isApproved = None\<rparr>"
  define coll1 where "coll1 = map (\<lambda>t. if s_id t = s_id s then push_reviews r t else t) (souvenirs st)"
  define v where "v = avg (map r_rating (s_reviews s) @ [in_rating inp])"
  have step1: "findOneAndUpdate (\<lambda>t. s_id t = s_id s) (push_reviews r) (souvenirs st) = (Some s, coll1)"
    unfolding coll1_def by (rule findOneAndUpdate_present [OF assms])
  have m: "match_stage (\<lambda>t. s_id t = s_id s) coll1 = [push_reviews r s]"
    unfolding coll1_def match_stage_def
    by (rule filter_by_id [OF assms]) (simp add: push_reviews_def)
  have agg: "group_avg_rating avg (replaceRoot_reviews (unwind_reviews
              (match_stage (\<lambda>t. s_id t = s_id s) coll1))) = [\<lparr>row_rating = v\<rparr>]"
    unfolding m aggregate_single by (simp add: push_reviews_def v_def r_def)
  have d1: "distinct (map s_id coll1)"
  proof -
    have "map s_id coll1 = map s_id (souvenirs st)"
      unfolding coll1_def by (simp add: push_reviews_def)
    with assms(1) show ?thesis by simp
  qed
  have in1: "push_reviews r s \<in> set coll1"
    unfolding coll1_def using assms(2) by force
  have id1: "s_id (push_reviews r s) = s_id s"
    by (simp add: push_reviews_def)
  have step3: "findOneAndUpdate (\<lambda>t. s_id t = s_id s) (set_rating v) coll1 =
      (Some (push_reviews r s), map (\<lambda>t. if s_id t = s_id s then set_rating v t else t) coll1)"
    using findOneAndUpdate_present [OF d1 in1, of "set_rating v"] unfolding id1 .
  have coll2: "map (\<lambda>t. if s_id t = s_id s then set_rating v t else t) coll1 =
      map (\<lambda>t. if s_id t = s_id s then t\<lparr>s_reviews := s_reviews t @ [r], s_rating := v\<rparr> else t) (souvenirs st)"
    unfolding coll1_def by (simp add: push_reviews_def set_rating_def)
  show ?thesis
    unfolding addReview_def Let_def r_def [symmetric] v_def [symmetric]
    by (simp add: step1 agg step3 coll2 push_reviews_def)
qed

text \<open>
  Two averages in double arithmetic. The sum 6 and the quotient 3 are doubles, so
  nothing is rounded; the quotient of 10 by 3 is not a double, and the nearest one is
  \<open>7505999378950827 / 2 ^ 51\<close>, which prints as \<open>3.3333333333333335\<close>.
\<close>

lemma double_avg_4_2: "double_avg [4, 2] = 3"
  by code_simp


text \<open>
  Where rounding leaves the sum and the quotient as they are, the average in double
  arithmetic is the arithmetic mean.
\<close>

lemma double_avg_exact:
  assumes "round_double (sum_list xs) = sum_list xs"
    and "round_double (sum_list xs / of_nat (length xs)) = sum_list xs / of_nat (length xs)"
  shows "double_avg xs = sum_list xs / of_nat (length xs)"
  by (simp add: double_avg_def assms)

section \<open>\<open>addReview\<close>\<close>




text \<open>
  Claim C2. The claim asks that the appended review has \<open>isApproved\<close> set to
  \<open>false\<close>. On the small store, \<open>addReview\<close> for the mug appends one review at the
  end, with the generated id, the current date and the caller's login, rating and
  text, but with no \<open>isApproved\<close> at all: the object pushed by the source is
  \<open>{ login, id, text, rating, date }\<close>. The comment above the method says
  \<open>isApproved - false\<close>.
\<close>

theorem addReview_omits_isApproved:
  "souvenirs (snd (addReview double_avg ''u'' 200 1 ann_input shop)) =
     [mug\<lparr>s_reviews := [first_review,
            \<lparr>r_id = ''u'', r_login = ''ann'', r_date = 200, r_text = ''fine'', r_rating = 2,
             r_isApproved = None\<rparr>],
          s_rating := 3\<rparr>, magnet] \<and>
   (None :: bool option) \<noteq> Some False"
proof -
  have d: "distinct (map s_id (souvenirs shop))"
    by (simp add: shop_def mug_def magnet_def)
  have m: "mug \<in> set (souvenirs shop)"
    by (simp add: shop_def)
  have i: "s_id mug = 1"
    by (simp add: mug_def)
  have "snd (addReview double_avg ''u'' 200 1 ann_input shop) =
    shop\<lparr>souvenirs := [mug\<lparr>s_reviews := s_reviews mug @
         [\<lparr>r_id = ''u'', r_login = ''ann'', r_date = 200, r_text = ''fine'', r_rating = 2,
           r_isApproved = None\<rparr>],
       s_rating := double_avg [4, 2]\<rparr>, magnet]\<rparr>"
    using addReview_existing [OF d m, of double_avg "''u''" 200 ann_input]
    unfolding i
    by (simp add: shop_def ann_input_def) (simp add: mug_def magnet_def first_review_def)
  then show ?thesis
    by (simp add: double_avg_4_2) (simp add: mug_def)
qed

text \<open>
  Claim C3, as amended. For every \<open>souvenirId\<close> that is the id of no souvenir,
  \<open>addReview\<close> fails with the \<open>TypeError\<close> of reading \<open>rating\<close> from the missing
  first row of the aggregate result, and leaves the store as it was.
\<close>

theorem addReview_missing_souvenir:
  assumes "souvenirId \<notin> s_id ` set (souvenirs st)"
  shows "addReview avg uuid now souvenirId inp st = (Inl TypeError, st)"
proof -
  have "match_stage (\<lambda>s. s_id s = souvenirId) (souvenirs st) = []"
    unfolding match_stage_def using assms by (auto simp: filter_empty_conv)
  then have "group_avg_rating avg (replaceRoot_reviews (unwind_reviews
      (match_stage (\<lambda>s. s_id s = souvenirId) (souvenirs st)))) = []"
    by (simp add: unwind_reviews_def replaceRoot_reviews_def group_avg_rating_def)
  then show ?thesis
    by (simp add: addReview_def findOneAndUpdate_absent [OF assms])
qed

theorem addReview_missing_souvenir_witness:
  "7 \<notin> s_id ` set (souvenirs shop) \<and>
   addReview double_avg ''u'' 200 7 ann_input shop = (Inl TypeError, shop)"
proof -
  have h: "7 \<notin> s_id ` set (souvenirs shop)"
    by (simp add: shop_def mug_def magnet_def)
  from addReview_missing_souvenir [OF h] h show ?thesis
    by blast
qed

text \<open>
  The claim as stated fails: for an id that resolves to no souvenir the error is not
  \<open>NotFound\<close>.
\<close>

theorem addReview_missing_not_NotFound:
  "fst (addReview double_avg ''u'' 200 7 ann_input shop) = Inl TypeError \<and>
   fst (addReview double_avg ''u'' 200 7 ann_input shop) \<noteq> Inl NotFound"
proof -
  have h: "7 \<notin> s_id ` set (souvenirs shop)"
    by (simp add: shop_def mug_def magnet_def)
  have "match_stage (\<lambda>s. s_id s = 7) (souvenirs shop) = []"
    unfolding match_stage_def using h by (auto simp: filter_empty_conv)
  then have "group_avg_rating double_avg (replaceRoot_reviews (unwind_reviews
      (match_stage (\<lambda>s. s_id s = 7) (souvenirs shop)))) = []"
    by (simp add: unwind_reviews_def replaceRoot_reviews_def group_avg_rating_def)
  then show ?thesis
    by (simp add: addReview_def findOneAndUpdate_absent [OF h])
qed

text \<open>
  Claim C10. For every souvenir \<open>s\<close> of the catalog (ids distinct), \<open>addReview\<close> on
  the id of \<open>s\<close> leaves the carts as they were, leaves every other souvenir as it was,
  and changes the target in two fields only: \<open>reviews\<close>, which gets one element
  appended after the reviews already there, and \<open>rating\<close>.
\<close>

theorem addReview_frame:
  assumes "distinct (map s_id (souvenirs st))" and "s \<in> set (souvenirs st)"
  shows "carts (snd (addReview avg uuid now (s_id s) inp st)) = carts st \<and>
         (\<exists>r v. souvenirs (snd (addReview avg uuid now (s_id s) inp st)) =
            map (\<lambda>t. if s_id t = s_id s then t\<lparr>s_reviews := s_reviews t @ [r], s_rating := v\<rparr> else t)
              (souvenirs st))"
  by (simp add: addReview_existing [OF assms]) blast

theorem addReview_frame_witness:
  "distinct (map s_id (souvenirs shop)) \<and> mug \<in> set (souvenirs shop) \<and>
   carts (snd (addReview double_avg ''u'' 200 (s_id mug) ann_input shop)) = carts shop \<and>
   (\<exists>r v. souvenirs (snd (addReview double_avg ''u'' 200 (s_id mug) ann_input shop)) =
      map (\<lambda>t. if s_id t = s_id mug then t\<lparr>s_reviews := s_reviews t @ [r], s_rating := v\<rparr> else t)
        (souvenirs shop))"
proof -
  have d: "distinct (map s_id (souvenirs shop))"
    by (simp add: shop_def mug_def magnet_def)
  have m: "mug \<in> set (souvenirs shop)"
    by (simp add: shop_def)
  from addReview_frame [OF d m, of double_avg "''u''" 200 ann_input] d m show ?thesis
    by blast
qed

section \<open>\<open>getCartSum\<close>\<close>

text \<open>
  With distinct ids the joined rows are worth what the items are worth, and there is
  no joined row exactly when no item of the user's cart resolves. So \<open>getCartSum\<close>
  returns the sum over the items, a dangling item counting 0, as soon as one item
  resolves, and fails otherwise.
\<close>

lemma filter_id_find:
  "distinct (map s_id xs) \<Longrightarrow>
   filter (\<lambda>s. s_id s = k) xs = (case find (\<lambda>s. s_id s = k) xs of None \<Rightarrow> [] | Some s \<Rightarrow> [s])"
proof (induction xs)
  case Nil
  then show ?case by simp
next
  case (Cons x xs)
  show ?case
  proof (cases "s_id x = k")
    case True
    with Cons.prems have "k \<notin> s_id ` set xs" by auto
    then have "filter (\<lambda>s. s_id s = k) xs = []"
      by (auto simp: filter_empty_conv)
    with True show ?thesis by simp
  next
    case False
    with Cons show ?thesis by simp
  qed
qed

lemma joined_cost:
  assumes "distinct (map s_id coll)"
  shows "sum_list (map (\<lambda>(i, s). s_price s * i_amount i)
           (unwind_souvenirs (lookup_souvenirs coll items))) =
         sum_list (map (item_cost coll) items)"
proof (induction items)
  case Nil
  then show ?case by (simp add: unwind_souvenirs_def lookup_souvenirs_def)
next
  case (Cons i items)
  have "unwind_souvenirs (lookup_souvenirs coll (i # items)) =
        map (\<lambda>s. (i, s)) (filter (\<lambda>s. s_id s = i_souvenirId i) coll) @
        unwind_souvenirs (lookup_souvenirs coll items)"
    by (simp add: unwind_souvenirs_def lookup_souvenirs_def)
  moreover have "sum_list (map (\<lambda>(i, s). s_price s * i_amount i)
      (map (\<lambda>s. (i, s)) (filter (\<lambda>s. s_id s = i_souvenirId i) coll))) = item_cost coll i"
    by (simp add: filter_id_find [OF assms] item_cost_def split: option.splits)
  ultimately show ?case using Cons.IH by simp
qed

lemma joined_empty:
  "unwind_souvenirs (lookup_souvenirs coll items) = [] \<longleftrightarrow>
   i_souvenirId ` set items \<inter> s_id ` set coll = {}"
  unfolding unwind_souvenirs_def lookup_souvenirs_def
  by (auto simp: filter_empty_conv) metis

lemma getCartSum_joined:
  assumes "distinct (map s_id (souvenirs st))"
  shows "getCartSum login st =
    (if i_souvenirId ` set (concat (map c_items (filter (\<lambda>c. c_login c = login) (carts st))))
          \<inter> s_id ` set (souvenirs st) = {}
     then Inl TypeError
     else Inr (sum_list (map (item_cost (souvenirs st))
            (concat (map c_items (filter (\<lambda>c. c_login c = login) (carts st)))))))"
proof -
  let ?items = "concat (map c_items (filter (\<lambda>c. c_login c = login) (carts st)))"
  have items: "replaceRoot_items (unwind_items (match_stage (\<lambda>c. c_login c = login) (carts st))) = ?items"
    by (simp add: replaceRoot_items_def unwind_items_def match_stage_def map_concat comp_def)
  show ?thesis
    unfolding getCartSum_def Let_def items group_sum_cost_def
    by (simp add: joined_cost [OF assms] joined_empty)
qed

text \<open>
  Claim C4. The claim asks for the sum, with 0 for every item that does not resolve,
  for every login that has a cart. On the small store, bob has a cart with no item
  and carl has a cart whose only item does not resolve: both sums are 0, and for both
  logins \<open>getCartSum\<close> fails with a \<open>TypeError\<close>, because the pipeline yields no
  row and the source reads \<open>result[0].cost\<close>.
\<close>

theorem getCartSum_nothing_resolves_fails:
  "bob_cart \<in> set (carts shop) \<and> c_login bob_cart = ''bob'' \<and>
   getCartSum ''bob'' shop = Inl TypeError \<and>
   carl_cart \<in> set (carts shop) \<and> c_login carl_cart = ''carl'' \<and>
   getCartSum ''carl'' shop = Inl TypeError"
  by code_simp

text \<open>
  Claim C5, as amended. For every login that no cart has, \<open>getCartSum\<close> fails with
  the \<open>TypeError\<close> of reading \<open>cost\<close> from the missing first row of the result.
\<close>

theorem getCartSum_no_cart:
  assumes "login \<notin> c_login ` set (carts st)"
  shows "getCartSum login st = Inl TypeError"
proof -
  have "match_stage (\<lambda>c. c_login c = login) (carts st) = []"
    unfolding match_stage_def using assms by (auto simp: filter_empty_conv)
  then show ?thesis
    by (simp add: getCartSum_def unwind_items_def replaceRoot_items_def lookup_souvenirs_def
        unwind_souvenirs_def group_sum_cost_def)
qed

theorem getCartSum_no_cart_witness:
  "''eve'' \<notin> c_login ` set (carts shop) \<and> getCartSum ''eve'' shop = Inl TypeError"
proof -
  have h: "''eve'' \<notin> c_login ` set (carts shop)"
    by (simp add: shop_def ann_cart_def bob_cart_def carl_cart_def)
  from getCartSum_no_cart [OF h] h show ?thesis
    by blast
qed

text \<open>The claim as stated fails: without a cart the error is not \<open>NotFound\<close>.\<close>

theorem getCartSum_no_cart_not_NotFound:
  "getCartSum ''eve'' shop = Inl TypeError \<and> getCartSum ''eve'' shop \<noteq> Inl NotFound"
  by code_simp

section \<open>\<open>getTopRatingSouvenirs\<close>\<close>

text \<open>
  Claim C6, as amended. For every integer \<open>n\<close> the result is sorted by rating,
  descending, and is drawn from the catalog. Its length is the smaller of \<open>n\<close> and the
  size of the catalog when \<open>n > 0\<close>; it is the size of the catalog when \<open>n = 0\<close>, for
  the store reads a limit of 0 as no limit; and when \<open>n < 0\<close> it is the smallest of
  \<open>-n\<close>, the size of one batch and the size of the catalog.
\<close>

theorem getTopRatingSouvenirs_length_sorted:
  "length (getTopRatingSouvenirs batch n st) =
     (if 0 < n then min (nat n) (length (souvenirs st))
      else if n = 0 then length (souvenirs st)
      else min (min (nat (- n)) batch) (length (souvenirs st))) \<and>
   sorted_wrt (\<lambda>a b. s_rating b \<le> s_rating a) (getTopRatingSouvenirs batch n st) \<and>
   mset (getTopRatingSouvenirs batch n st) \<subseteq># mset (souvenirs st)"
proof -
  let ?sorted = "sort_rating_desc (find_where (\<lambda>s. True) (souvenirs st))"
  have len: "length ?sorted = length (souvenirs st)"
    by (simp add: sort_rating_desc_def find_where_def)
  have "sorted (map (\<lambda>s. - s_rating s) ?sorted)"
    unfolding sort_rating_desc_def by (rule sorted_sort_key)
  then have srt: "sorted_wrt (\<lambda>a b. s_rating b \<le> s_rating a) ?sorted"
    by (simp add: sorted_wrt_map)
  have ms: "mset ?sorted = mset (souvenirs st)"
    by (simp add: sort_rating_desc_def find_where_def)
  have "mset (take k ?sorted) \<subseteq># mset ?sorted" for k
    by (metis append_take_drop_id mset_append mset_subset_eq_add_left)
  with ms have sub: "mset (take k ?sorted) \<subseteq># mset (souvenirs st)" for k
    by simp
  show ?thesis
    unfolding getTopRatingSouvenirs_def limit_n_def
    using len srt ms sub by (auto simp: min_def)
qed

text \<open>
  The claim as stated fails: with \<open>n = 0\<close> the result is the catalog, not the empty
  sequence.
\<close>

theorem getTopRatingSouvenirs_zero_limit:
  "getTopRatingSouvenirs 101 0 shop = [mug, magnet] \<and>
   getTopRatingSouvenirs 101 0 shop \<noteq> []"
  by code_simp

section \<open>\<open>searchSouvenirs\<close>\<close>

text \<open>
  A pattern without a dot and without any other metacharacter matches a name exactly
  when the name contains it, letters compared in either case.
\<close>

lemma compile_regex_literal:
  "set p \<inter> insert (CHR ''.'') (set other_metachars) = {} \<Longrightarrow>
   compile_regex p = Some (map Lit p)"
  unfolding compile_regex_def by (induction p) (auto simp: compile_atom_def)

lemma match_here_literal:
  "match_here (map Lit p) cs = prefix (map lower p) (map lower cs)"
proof (induction p arbitrary: cs)
  case Nil
  then show ?case by simp
next
  case (Cons a p)
  then show ?case by (cases cs) auto
qed

lemma regex_search_literal:
  "regex_search (map Lit p) cs = sublist (map lower p) (map lower cs)"
proof (induction cs)
  case Nil
  then show ?case by (simp add: match_here_literal)
next
  case (Cons c cs)
  then show ?case by (simp add: match_here_literal sublist_Cons_right)
qed

lemma searchSouvenirs_literal:
  assumes "set substring \<inter> insert (CHR ''.'') (set other_metachars) = {}"
  shows "searchSouvenirs substring st =
    Some (filter (\<lambda>s. sublist (map lower substring) (map lower (s_name s))) (souvenirs st))"
  by (simp add: searchSouvenirs_def compile_regex_literal [OF assms] regex_search_literal
      find_where_def)

text \<open>
  Claim C7. The claim asks for the souvenirs whose name contains the argument as a
  literal substring. The source passes the argument on as a pattern: on the small
  store the argument \<open>.\<close> finds the mug and the magnet, and neither name contains a
  dot. The comment above the method asks for the names that contain the substring.
\<close>

theorem searchSouvenirs_dot_is_wildcard:
  "searchSouvenirs ''.'' shop = Some [mug, magnet] \<and>
   \<not> sublist ''.'' (s_name mug) \<and> \<not> sublist ''.'' (s_name magnet)"
  by code_simp

section \<open>\<open>deleteOutOfStockSouvenirs\<close>\<close>

text \<open>
  Claim C8, as amended. \<open>deleteOutOfStockSouvenirs\<close> removes exactly the souvenirs
  whose amount is 0 and keeps the others, returns \<open>{ ok: 1, n: k }\<close> with \<open>k\<close> the
  number of souvenirs removed, and a second call right after the first returns
  \<open>{ ok: 1, n: 0 }\<close> and changes nothing.
\<close>

theorem deleteOutOfStockSouvenirs_idempotent:
  "deleteOutOfStockSouvenirs st =
     ([(''ok'', JNumber 1),
       (''n'', JNumber (int (length (filter (\<lambda>s. s_amount s = 0) (souvenirs st)))))],
      st\<lparr>souvenirs := filter (\<lambda>s. s_amount s \<noteq> 0) (souvenirs st)\<rparr>) \<and>
   deleteOutOfStockSouvenirs (snd (deleteOutOfStockSouvenirs st)) =
     ([(''ok'', JNumber 1), (''n'', JNumber 0)], snd (deleteOutOfStockSouvenirs st))"
  by (simp add: deleteOutOfStockSouvenirs_def deleteMany_def)

text \<open>
  The claim as stated fails: the object returned has the fields \<open>ok\<close> and \<open>n\<close>, and
  neither \<open>acknowledged\<close> nor \<open>deletedCount\<close>.
\<close>

theorem deleteOutOfStockSouvenirs_result_shape:
  "fst (deleteOutOfStockSouvenirs shop) = [(''ok'', JNumber 1), (''n'', JNumber 1)] \<and>
   fst (deleteOutOfStockSouvenirs shop) \<noteq>
     [(''acknowledged'', JBoolean True), (''deletedCount'', JNumber 1)] \<and>
   map_of (fst (deleteOutOfStockSouvenirs shop)) ''acknowledged'' = None \<and>
   map_of (fst (deleteOutOfStockSouvenirs shop)) ''deletedCount'' = None"
  by code_simp

section \<open>\<open>getDisscusedSouvenirs\<close>\<close>

text \<open>
  Claim C9. For every date \<open>d\<close>, \<open>getDisscusedSouvenirs d\<close> returns exactly the
  souvenirs that have a first review and whose first review is dated \<open>d\<close> or later:
  a souvenir without reviews is left out, and the reviews after the first play no
  part.
\<close>

theorem getDisscusedSouvenirs_first_review:
  "getDisscusedSouvenirs d st =
     filter (\<lambda>s. case s_reviews s of [] \<Rightarrow> False | r # later \<Rightarrow> d \<le> r_date r) (souvenirs st)"
  unfolding getDisscusedSouvenirs_def find_where_def
  by (rule filter_cong) (auto simp: gte_def path_reviews_date_def split: list.splits)

end
